theory Spec2Isabelle
  imports Main
begin

section \<open>The object model RelaySchemaUtils works on\<close>

text \<open>
  RelaySchemaUtils.js is a set of helpers over the objects of the \<open>graphql\<close> library:
  named types, the two wrapper types, directives and schemas. JavaScript objects have an
  identity, and \<open>hasID\<close> compares types with \<open>===\<close>, so a named type is a reference
  into a heap of type objects; two named types are the same instance exactly when their
  references are equal, whatever their names.
\<close>

type_synonym ref = nat

datatype type_kind =
  ScalarType | ObjectType | InterfaceType | UnionType | EnumType | InputObjectType

text \<open>
  A value of the Flow type \<open>GraphQLType\<close>: a named type (by reference), a
  \<open>GraphQLList\<close> or a \<open>GraphQLNonNull\<close> around another type (\<open>ofType\<close>).
\<close>

datatype gtype = Named ref | GraphQLList gtype | GraphQLNonNull gtype

record field =
  fname :: string
  ftype :: gtype

text \<open>
  A named type object: its class (\<open>instanceof\<close>), its \<open>name\<close>, the map
  \<open>getFields()\<close> returns, the list \<open>getInterfaces()\<close> returns (object types) and the
  list \<open>getTypes()\<close> returns (union types).
\<close>

record named_type =
  tkind :: type_kind
  tname :: string
  tfields :: "string \<rightharpoonup> field"
  tinterfaces :: "ref list"
  tmembers :: "ref list"

record directive =
  dname :: string
  dlocations :: "string list"

text \<open>
  A schema object: the root types, the type map (a JavaScript object, whose
  \<open>Object.values\<close> come in insertion order, hence an association list) and the
  reference of the array \<open>getDirectives()\<close> returns.
\<close>

record schema =
  queryType :: ref
  mutationType :: "ref option"
  subscriptionType :: "ref option"
  typeMap :: "(string \<times> ref) list"
  directives :: ref

text \<open>
  The heap: type objects, arrays of directives and schema objects, each by reference,
  and the next free reference. Arrays and schemas are the objects
  \<open>schemaWithDirectives\<close> allocates.
\<close>

record heap =
  typeObjs :: "ref \<Rightarrow> named_type"
  dirArrays :: "ref \<Rightarrow> directive list"
  schemaObjs :: "ref \<Rightarrow> schema"
  nextRef :: ref

text \<open>
  Every failure of the module is an exception: \<open>invariant(cond, format, arg)\<close> throws
  an error whose message is \<open>format\<close> with \<open>%s\<close> replaced by the argument,
  \<open>nullthrows\<close> throws on \<open>null\<close> and \<open>undefined\<close>, and calling a method a
  value does not have is a \<open>TypeError\<close>.
\<close>

datatype error = Invariant string | NullThrows | TypeError

definition andThen :: "error + 'a \<Rightarrow> ('a \<Rightarrow> error + 'b) \<Rightarrow> error + 'b" where
  "andThen m f = (case m of Inl e \<Rightarrow> Inl e | Inr v \<Rightarrow> f v)"

text \<open>The result of a JavaScript expression that is a boolean or \<open>undefined\<close>.\<close>

datatype jsvalue = JSUndefined | JSBool bool

section \<open>The library functions the module calls\<close>

text \<open>
  Modelled from the spec: \<open>getNamedType\<close> of the graphql library (the spec's raw type:
  "a type reference with all List/NonNull wrapper layers removed, yielding the
  underlying named type").
\<close>

fun getNamedType :: "gtype \<Rightarrow> gtype" where
  "getNamedType (GraphQLList t) = getNamedType t"
| "getNamedType (GraphQLNonNull t) = getNamedType t"
| "getNamedType (Named r) = Named r"

text \<open>
  Modelled from the spec: \<open>toString()\<close> of a type, its name; a list type prints as
  \<open>[T]\<close> and a non-null type as \<open>T!\<close>.
\<close>

fun toString :: "heap \<Rightarrow> gtype \<Rightarrow> string" where
  "toString h (Named r) = tname (typeObjs h r)"
| "toString h (GraphQLList t) = ''['' @ toString h t @ '']''"
| "toString h (GraphQLNonNull t) = toString h t @ ''!''"

text \<open>
  \<open>x instanceof C\<close> for the six classes of named types: a wrapper is an instance of
  none of them.
\<close>

fun instanceOf :: "heap \<Rightarrow> gtype \<Rightarrow> type_kind \<Rightarrow> bool" where
  "instanceOf h (Named r) k = (tkind (typeObjs h r) = k)"
| "instanceOf h (GraphQLList t) k = False"
| "instanceOf h (GraphQLNonNull t) k = False"

definition nullthrows :: "'a option \<Rightarrow> error + 'a" where
  "nullthrows x = (case x of None \<Rightarrow> Inl NullThrows | Some v \<Rightarrow> Inr v)"

section \<open>RelaySchemaUtils: types\<close>

definition getRawType :: "gtype \<Rightarrow> error + gtype" where
  "getRawType t = nullthrows (Some (getNamedType t))"

definition canHaveSelections :: "heap \<Rightarrow> gtype \<Rightarrow> bool" where
  "canHaveSelections h t = (instanceOf h t ObjectType \<or> instanceOf h t InterfaceType)"

definition isAbstractType :: "heap \<Rightarrow> gtype \<Rightarrow> error + bool" where
  "isAbstractType h t =
     andThen (getRawType t) (\<lambda>rawType.
       Inr (instanceOf h rawType InterfaceType \<or> instanceOf h rawType UnionType))"

text \<open>The loop of \<open>getSingularType\<close>: while the value is a \<open>GraphQLList\<close>, take its \<open>ofType\<close>.\<close>

fun getSingularType :: "gtype \<Rightarrow> gtype" where
  "getSingularType (GraphQLList t) = getSingularType t"
| "getSingularType (GraphQLNonNull t) = GraphQLNonNull t"
| "getSingularType (Named r) = Named r"

text \<open>
  \<open>getInterfaces\<close>: the interfaces of a value that is an instance of
  \<open>GraphQLObjectType\<close>, the empty array for any other value.
\<close>

fun getInterfaces :: "heap \<Rightarrow> gtype \<Rightarrow> gtype list" where
  "getInterfaces h (Named r) =
     (if instanceOf h (Named r) ObjectType then map Named (tinterfaces (typeObjs h r)) else [])"
| "getInterfaces h (GraphQLList t) = []"
| "getInterfaces h (GraphQLNonNull t) = []"

definition implementsInterface :: "heap \<Rightarrow> gtype \<Rightarrow> string \<Rightarrow> bool" where
  "implementsInterface h t interfaceName =
     list_ex (\<lambda>interfaceType. toString h interfaceType = interfaceName) (getInterfaces h t)"

section \<open>RelaySchemaUtils: compatibility of types\<close>

text \<open>
  Modelled from the spec: \<open>schema.getPossibleTypes\<close> of the graphql library ("the set of
  concrete Object types a schema associates with a given abstract type (via interface
  implementation or union membership)"): the members of a union; for an interface, the
  object types of the schema's type map that declare it.
\<close>

fun getPossibleTypes :: "heap \<Rightarrow> ref \<Rightarrow> gtype \<Rightarrow> gtype list" where
  "getPossibleTypes h s (Named r) =
     (if tkind (typeObjs h r) = UnionType then map Named (tmembers (typeObjs h r))
      else map Named
        (filter (\<lambda>c. tkind (typeObjs h c) = ObjectType \<and> r \<in> set (tinterfaces (typeObjs h c)))
          (map snd (typeMap (schemaObjs h s)))))"
| "getPossibleTypes h s (GraphQLList t) = []"
| "getPossibleTypes h s (GraphQLNonNull t) = []"

text \<open>
  Modelled from the spec: \<open>assertAbstractType\<close> of the graphql library
  ("fails with InvariantViolation if given a non-abstract type"). The library's test
  does not unwrap.
\<close>

definition assertAbstractType :: "heap \<Rightarrow> gtype \<Rightarrow> error + gtype" where
  "assertAbstractType h t =
     (if instanceOf h t InterfaceType \<or> instanceOf h t UnionType then Inr t
      else Inl (Invariant (''Expected '' @ toString h t @ '' to be a GraphQL abstract type.'')))"

definition getConcreteTypes :: "heap \<Rightarrow> ref \<Rightarrow> gtype \<Rightarrow> error + gtype list" where
  "getConcreteTypes h s t =
     andThen (assertAbstractType h t) (\<lambda>abstract. Inr (getPossibleTypes h s abstract))"

definition hasConcreteTypeThatImplements ::
    "heap \<Rightarrow> ref \<Rightarrow> gtype \<Rightarrow> string \<Rightarrow> error + bool" where
  "hasConcreteTypeThatImplements h s t interfaceName =
     andThen (isAbstractType h t) (\<lambda>abstract.
       if abstract then
         andThen (getConcreteTypes h s t) (\<lambda>concreteTypes.
           Inr (list_ex (\<lambda>concreteType. implementsInterface h concreteType interfaceName)
                  concreteTypes))
       else Inr False)"

text \<open>
  \<open>mayImplement\<close>: the three operands of \<open>||\<close> are evaluated from the left, and the
  first true one ends the evaluation.
\<close>

definition mayImplement :: "heap \<Rightarrow> ref \<Rightarrow> gtype \<Rightarrow> string \<Rightarrow> error + bool" where
  "mayImplement h s t typeName =
     andThen (getRawType t) (\<lambda>unmodifiedType.
       if toString h unmodifiedType = typeName then Inr True
       else if implementsInterface h unmodifiedType typeName then Inr True
       else
         andThen (isAbstractType h unmodifiedType) (\<lambda>abstract.
           if abstract then hasConcreteTypeThatImplements h s unmodifiedType typeName
           else Inr False))"

section \<open>RelaySchemaUtils: the identity field\<close>

definition ID :: string where
  "ID = ''id''"

definition ID_TYPE :: string where
  "ID_TYPE = ''ID''"

text \<open>
  Modelled from the spec: \<open>schema.getType(name)\<close> of the graphql library
  ("type-by-name lookup"): the entry of the type map, \<open>undefined\<close> when there is none.
\<close>

definition getType :: "heap \<Rightarrow> ref \<Rightarrow> string \<Rightarrow> gtype option" where
  "getType h s n = map_option Named (map_of (typeMap (schemaObjs h s)) n)"

text \<open>
  Modelled from the spec: \<open>getFields()\<close> of the graphql library ("Object and Interface
  additionally carry a mapping from field name to Field"); input object types have the
  method too, no other value has.
\<close>

fun getFields :: "heap \<Rightarrow> gtype \<Rightarrow> error + (string \<rightharpoonup> field)" where
  "getFields h (Named r) =
     (if tkind (typeObjs h r) \<in> {ObjectType, InterfaceType, InputObjectType}
      then Inr (tfields (typeObjs h r)) else Inl TypeError)"
| "getFields h (GraphQLList t) = Inl TypeError"
| "getFields h (GraphQLNonNull t) = Inl TypeError"

text \<open>
  \<open>hasID\<close> returns the value of \<open>idField && getRawType(idField.type) === idType\<close>:
  the left operand itself when it is \<open>undefined\<close>, the comparison otherwise (a field
  object is truthy). \<open>===\<close> on types is the identity of the objects; \<open>idType\<close> is
  \<open>undefined\<close> when the schema has no type of that name, and no type is identical to
  \<open>undefined\<close>. The message of the invariant prints \<open>type\<close>, the argument as given.
\<close>

definition hasID :: "heap \<Rightarrow> ref \<Rightarrow> gtype \<Rightarrow> error + jsvalue" where
  "hasID h s t =
     andThen (getRawType t) (\<lambda>unmodifiedType.
       if \<not> (instanceOf h unmodifiedType ObjectType \<or>
              instanceOf h unmodifiedType InterfaceType)
       then Inl (Invariant
         (''RelaySchemaUtils.hasID(): Expected a concrete type or interface, got type `''
            @ toString h t @ ''`.''))
       else
         let idType = getType h s ID_TYPE in
         andThen (getFields h unmodifiedType) (\<lambda>fields.
           case fields ID of
             None \<Rightarrow> Inr JSUndefined
           | Some idField \<Rightarrow>
               andThen (getRawType (ftype idField)) (\<lambda>fieldType.
                 Inr (JSBool (Some fieldType = idType)))))"

section \<open>RelaySchemaUtils: schemas and directives\<close>

text \<open>
  Modelled from the spec: \<open>assertType\<close> of the graphql library ("requires value already
  be a type"). Every value of \<open>gtype\<close> is a type.
\<close>

definition assertType :: "gtype \<Rightarrow> error + gtype" where
  "assertType t = Inr t"

definition assertNamedType :: "heap \<Rightarrow> gtype \<Rightarrow> error + gtype" where
  "assertNamedType h t =
     andThen (assertType t) (\<lambda>asserted.
       let namedType = getNamedType asserted in
       if namedType = t then Inr t
       else Inl (Invariant
         (''RelaySchemaUtils: Expected `'' @ toString h t @ ''` to be a named type.'')))"

text \<open>\<open>Array.prototype.map\<close> with a callback that may throw: the first exception ends it.\<close>

fun mapArray :: "('a \<Rightarrow> error + 'b) \<Rightarrow> 'a list \<Rightarrow> error + 'b list" where
  "mapArray f [] = Inr []"
| "mapArray f (x # xs) =
     andThen (f x) (\<lambda>y. andThen (mapArray f xs) (\<lambda>ys. Inr (y # ys)))"

text \<open>
  The \<open>forEach\<close> of \<open>schemaWithDirectives\<close> over the combined directives, with the
  \<open>Set\<close> of the names seen so far.
\<close>

definition duplicateDirectiveMessage :: "string \<Rightarrow> string" where
  "duplicateDirectiveMessage n =
     ''RelaySchemaUtils: Expected unique names for directives, found a duplicate directive `''
       @ n @ ''`.''"

fun validateUniqueNames :: "string set \<Rightarrow> directive list \<Rightarrow> error + string set" where
  "validateUniqueNames directiveNames [] = Inr directiveNames"
| "validateUniqueNames directiveNames (d # ds) =
     (if dname d \<in> directiveNames then Inl (Invariant (duplicateDirectiveMessage (dname d)))
      else validateUniqueNames (insert (dname d) directiveNames) ds)"

text \<open>An array literal allocates a new array.\<close>

definition newArray :: "heap \<Rightarrow> directive list \<Rightarrow> ref \<times> heap" where
  "newArray h xs =
     (nextRef h, h\<lparr>dirArrays := (dirArrays h)(nextRef h := xs), nextRef := Suc (nextRef h)\<rparr>)"

fun namedRef :: "gtype \<Rightarrow> ref" where
  "namedRef (Named r) = r"
| "namedRef (GraphQLList t) = namedRef t"
| "namedRef (GraphQLNonNull t) = namedRef t"

record schema_config =
  cfgQuery :: ref
  cfgMutation :: "ref option"
  cfgSubscription :: "ref option"
  cfgTypes :: "gtype list"
  cfgDirectives :: ref

text \<open>
  Modelled from the spec: the constructor \<open>new GraphQLSchema(config)\<close> of the graphql
  library ("a constructor that assembles a new schema from (query type, mutation type,
  subscription type, full type list, directive list)"): a new schema object with the
  given root types, a type map of the given types under their names, and the given
  array as its directives.
\<close>

definition newGraphQLSchema :: "heap \<Rightarrow> schema_config \<Rightarrow> ref \<times> heap" where
  "newGraphQLSchema h cfg =
     (nextRef h,
      h\<lparr>schemaObjs := (schemaObjs h)(nextRef h :=
           \<lparr>queryType = cfgQuery cfg,
            mutationType = cfgMutation cfg,
            subscriptionType = cfgSubscription cfg,
            typeMap = map (\<lambda>t. (toString h (getNamedType t), namedRef t)) (cfgTypes cfg),
            directives = cfgDirectives cfg\<rparr>),
        nextRef := Suc (nextRef h)\<rparr>)"

text \<open>The accessors of a schema object; \<open>getDirectives()\<close> returns the schema's own array.\<close>

definition getDirectives :: "heap \<Rightarrow> ref \<Rightarrow> ref" where
  "getDirectives h s = directives (schemaObjs h s)"

definition getTypeMap :: "heap \<Rightarrow> ref \<Rightarrow> (string \<times> ref) list" where
  "getTypeMap h s = typeMap (schemaObjs h s)"

definition objectValues :: "(string \<times> ref) list \<Rightarrow> gtype list" where
  "objectValues m = map (\<lambda>(k, r). Named r) m"

text \<open>
  \<open>schemaWithDirectives(schema, directives)\<close>: both arguments are references. The
  spread \<open>[...schema.getDirectives(), ...directives]\<close> reads the two arrays into a new
  one.
\<close>

definition schemaWithDirectives :: "heap \<Rightarrow> ref \<Rightarrow> ref \<Rightarrow> error + (ref \<times> heap)" where
  "schemaWithDirectives h s ds =
     (let (combinedDirectives, h1) =
            newArray h (dirArrays h (getDirectives h s) @ dirArrays h ds)
      in
      andThen (validateUniqueNames {} (dirArrays h1 combinedDirectives)) (\<lambda>directiveNames.
      andThen (mapArray (assertNamedType h1) (objectValues (getTypeMap h1 s))) (\<lambda>types.
        Inr (newGraphQLSchema h1
          \<lparr>cfgQuery = queryType (schemaObjs h1 s),
           cfgMutation = mutationType (schemaObjs h1 s),
           cfgSubscription = subscriptionType (schemaObjs h1 s),
           cfgTypes = types,
           cfgDirectives = combinedDirectives\<rparr>))))"

section \<open>RelaySchemaUtils: syntax nodes\<close>

record ast_node =
  kind :: string

definition isOperationDefinitionAST :: "ast_node \<Rightarrow> bool" where
  "isOperationDefinitionAST ast =
     (kind ast = ''FragmentDefinition'' \<or>
      kind ast = ''OperationDefinition'')"

definition getOperationDefinitionAST :: "ast_node \<Rightarrow> ast_node option" where
  "getOperationDefinitionAST ast = (if isOperationDefinitionAST ast then Some ast else None)"

definition isSchemaDefinitionAST :: "ast_node \<Rightarrow> bool" where
  "isSchemaDefinitionAST ast =
     (kind ast = ''DirectiveDefinition'' \<or>
      kind ast = ''EnumTypeDefinition'' \<or>
      kind ast = ''InputObjectTypeDefinition'' \<or>
      kind ast = ''InterfaceTypeDefinition'' \<or>
      kind ast = ''ObjectTypeDefinition'' \<or>
      kind ast = ''ScalarTypeDefinition'' \<or>
      kind ast = ''TypeExtensionDefinition'' \<or>
      kind ast = ''UnionTypeDefinition'')"

definition assertTypeWithFields :: "heap \<Rightarrow> gtype \<Rightarrow> error + gtype" where
  "assertTypeWithFields h t =
     (if instanceOf h t ObjectType \<or> instanceOf h t InterfaceType then Inr t
      else Inl (Invariant
        (''RelaySchemaUtils: Expected type `'' @ toString h t
           @ ''` to be an object or interface type.'')))"

text \<open>
  The type nodes of a syntax tree (Flow type \<open>TypeNode\<close>): a \<open>NonNullTypeNode\<close> holds a
  named or a list node, never another non-null node.
\<close>

datatype nullable_type_node = NamedTypeNode string | ListTypeNode type_node
  and type_node = Nullable nullable_type_node | NonNullTypeNode nullable_type_node

text \<open>
  Modelled from the spec: \<open>print\<close> of the graphql library ("a print operation that
  renders a node back to source text"), on type nodes: \<open>Name\<close>, \<open>[T]\<close>, \<open>T!\<close>.
\<close>

fun printNullable :: "nullable_type_node \<Rightarrow> string"
  and print :: "type_node \<Rightarrow> string" where
  "printNullable (NamedTypeNode n) = n"
| "printNullable (ListTypeNode t) = ''['' @ print t @ '']''"
| "print (Nullable n) = printNullable n"
| "print (NonNullTypeNode n) = printNullable n @ ''!''"

text \<open>
  Modelled from the spec: \<open>typeFromAST\<close> of the graphql library ("resolves a (possibly
  wrapped) type-reference syntax node against the schema's named types, reconstructing
  List/NonNull wrapper layers per the node's own wrapper structure"); \<open>undefined\<close> when
  the schema has no type of the name.
\<close>

fun typeFromASTNullable :: "heap \<Rightarrow> ref \<Rightarrow> nullable_type_node \<Rightarrow> gtype option"
  and typeFromAST :: "heap \<Rightarrow> ref \<Rightarrow> type_node \<Rightarrow> gtype option" where
  "typeFromASTNullable h s (NamedTypeNode n) = getType h s n"
| "typeFromASTNullable h s (ListTypeNode t) = map_option GraphQLList (typeFromAST h s t)"
| "typeFromAST h s (Nullable n) = typeFromASTNullable h s n"
| "typeFromAST h s (NonNullTypeNode n) = map_option GraphQLNonNull (typeFromASTNullable h s n)"

text \<open>
  Modelled from the spec: \<open>isType\<close> of the graphql library, on the result of
  \<open>typeFromAST\<close>: false on \<open>undefined\<close>, true on a type.
\<close>

definition isType :: "gtype option \<Rightarrow> bool" where
  "isType v = (v \<noteq> None)"

definition unknownTypeMessage :: "string \<Rightarrow> string" where
  "unknownTypeMessage printed = ''RelaySchemaUtils: Unknown type `'' @ printed @ ''`.''"

definition getTypeFromAST :: "heap \<Rightarrow> ref \<Rightarrow> type_node \<Rightarrow> error + gtype" where
  "getTypeFromAST h s ast =
     (case typeFromAST h s ast of
        None \<Rightarrow> Inl (Invariant (unknownTypeMessage (print ast)))
      | Some t \<Rightarrow> if isType (Some t) then Inr t
                  else Inl (Invariant (unknownTypeMessage (print ast))))"

section \<open>Notions of the specification\<close>

text \<open>
  The specification speaks of a type reference that still has a List layer, of the
  named leaf of a type node and of rebuilding a node's wrappers around a resolved type.
  These three are written from its words, to state the properties below.
\<close>

fun hasListLayer :: "gtype \<Rightarrow> bool" where
  "hasListLayer (Named r) = False"
| "hasListLayer (GraphQLList t) = True"
| "hasListLayer (GraphQLNonNull t) = hasListLayer t"

fun leafNameNullable :: "nullable_type_node \<Rightarrow> string"
  and leafName :: "type_node \<Rightarrow> string" where
  "leafNameNullable (NamedTypeNode n) = n"
| "leafNameNullable (ListTypeNode t) = leafName t"
| "leafName (Nullable n) = leafNameNullable n"
| "leafName (NonNullTypeNode n) = leafNameNullable n"

fun rewrapNullable :: "nullable_type_node \<Rightarrow> gtype \<Rightarrow> gtype"
  and rewrap :: "type_node \<Rightarrow> gtype \<Rightarrow> gtype" where
  "rewrapNullable (NamedTypeNode n) leaf = leaf"
| "rewrapNullable (ListTypeNode t) leaf = GraphQLList (rewrap t leaf)"
| "rewrap (Nullable n) leaf = rewrapNullable n leaf"
| "rewrap (NonNullTypeNode n) leaf = GraphQLNonNull (rewrapNullable n leaf)"

section \<open>An example schema\<close>

text \<open>
  The schema of the specification's scenario: \<open>interface Node { id: ID }\<close>,
  \<open>type User implements Node { id: ID!, name: String }\<close>, \<open>union Entity = User\<close>
  and a query type \<open>Query { node: Node }\<close>. The type objects are \<open>ID\<close> at
  reference 0, \<open>String\<close> at 1, \<open>Node\<close> at 2, \<open>User\<close> at 3, \<open>Entity\<close> at 4 and
  \<open>Query\<close> at 5. Outside the schema, reference 6 is a second scalar that is also
  named \<open>ID\<close> and 7 an object type \<open>Draft { id: ID }\<close> whose field has that second
  scalar as its type. The schema object at reference 0 has the directives \<open>include\<close>
  and \<open>skip\<close> (array 1); the schema object at reference 1 is the same with an array
  that names \<open>include\<close> twice (array 4); the schema object at reference 2 is the same
  with a type map that has no \<open>ID\<close>. Arrays 2, 3 and 5 are arguments for
  \<open>schemaWithDirectives\<close>.
\<close>

definition scalarObj :: "string \<Rightarrow> named_type" where
  "scalarObj n =
     \<lparr>tkind = ScalarType, tname = n, tfields = Map.empty, tinterfaces = [], tmembers = []\<rparr>"

definition exampleTypes :: "ref \<Rightarrow> named_type" where
  "exampleTypes =
     (\<lambda>r. scalarObj ''String'')
       (0 := scalarObj ''ID'',
        2 := \<lparr>tkind = InterfaceType, tname = ''Node'',
               tfields = [''id'' \<mapsto> \<lparr>fname = ''id'', ftype = Named 0\<rparr>],
               tinterfaces = [], tmembers = []\<rparr>,
        3 := \<lparr>tkind = ObjectType, tname = ''User'',
               tfields = [''id'' \<mapsto> \<lparr>fname = ''id'', ftype = GraphQLNonNull (Named 0)\<rparr>,
                          ''name'' \<mapsto> \<lparr>fname = ''name'', ftype = Named 1\<rparr>],
               tinterfaces = [2], tmembers = []\<rparr>,
        4 := \<lparr>tkind = UnionType, tname = ''Entity'', tfields = Map.empty,
               tinterfaces = [], tmembers = [3]\<rparr>,
        5 := \<lparr>tkind = ObjectType, tname = ''Query'',
               tfields = [''node'' \<mapsto> \<lparr>fname = ''node'', ftype = Named 2\<rparr>],
               tinterfaces = [], tmembers = []\<rparr>,
        6 := scalarObj ''ID'',
        7 := \<lparr>tkind = ObjectType, tname = ''Draft'',
               tfields = [''id'' \<mapsto> \<lparr>fname = ''id'', ftype = Named 6\<rparr>],
               tinterfaces = [], tmembers = []\<rparr>)"

definition exampleSchema :: schema where
  "exampleSchema =
     \<lparr>queryType = 5, mutationType = None, subscriptionType = None,
      typeMap = [(''Query'', 5), (''Node'', 2), (''ID'', 0), (''User'', 3), (''String'', 1),
                 (''Entity'', 4)],
      directives = 1\<rparr>"

definition exampleHeap :: heap where
  "exampleHeap =
     \<lparr>typeObjs = exampleTypes,
      dirArrays = (\<lambda>r. [])
        (1 := [\<lparr>dname = ''include'', dlocations = [''FIELD'']\<rparr>,
               \<lparr>dname = ''skip'', dlocations = [''FIELD'']\<rparr>],
         2 := [\<lparr>dname = ''relay'', dlocations = [''FRAGMENT_DEFINITION'']\<rparr>],
         3 := [\<lparr>dname = ''skip'', dlocations = [''FRAGMENT_SPREAD'']\<rparr>],
         4 := [\<lparr>dname = ''include'', dlocations = [''FIELD'']\<rparr>,
               \<lparr>dname = ''skip'', dlocations = [''FIELD'']\<rparr>,
               \<lparr>dname = ''include'', dlocations = [''INLINE_FRAGMENT'']\<rparr>],
         5 := []),
      schemaObjs = (\<lambda>r. exampleSchema)
        (1 := exampleSchema\<lparr>directives := 4\<rparr>,
         2 := exampleSchema\<lparr>typeMap := [(''Query'', 5), (''Node'', 2), (''User'', 3),
                (''String'', 1), (''Entity'', 4)]\<rparr>),
      nextRef = 6\<rparr>"

lemmas example_defs = exampleHeap_def exampleTypes_def exampleSchema_def scalarObj_def

section \<open>Raw types\<close>

lemma getRawType_eq: "getRawType t = Inr (getNamedType t)"
  by (simp add: getRawType_def nullthrows_def)

lemma getNamedType_namedRef: "getNamedType t = Named (namedRef t)"
  by (induction t) simp_all

section \<open>implementsInterface\<close>

text \<open>
  C1, as the specification states it, fails: \<open>implementsInterface\<close> does not take the
  raw type of its argument. \<open>[User]\<close> has the raw type \<open>User\<close>, an object type that
  declares \<open>Node\<close>, and \<open>implementsInterface([User], "Node")\<close> is false.
\<close>

theorem implementsInterface_wrapped_counterexample:
  "getRawType (GraphQLList (Named 3)) = Inr (Named 3)
   \<and> instanceOf exampleHeap (Named 3) ObjectType
   \<and> ''Node'' \<in> set (map (toString exampleHeap) (getInterfaces exampleHeap (Named 3)))
   \<and> implementsInterface exampleHeap (GraphQLList (Named 3)) ''Node'' = False"
  by (simp add: getRawType_eq implementsInterface_def example_defs)

text \<open>
  C1, amended: \<open>implementsInterface(ref, n)\<close> is true if and only if \<open>ref\<close> itself,
  with no wrapper removed, is an object type whose declared interfaces contain one
  named \<open>n\<close>; it is false for every List or NonNull reference, and false whenever the
  raw type of \<open>ref\<close> is not an object type (an interface, union, scalar, enum or input
  object).
\<close>

theorem implementsInterface_unwrapped_object:
  "implementsInterface h t n =
     (case t of
        Named r \<Rightarrow> tkind (typeObjs h r) = ObjectType
                   \<and> n \<in> (\<lambda>i. tname (typeObjs h i)) ` set (tinterfaces (typeObjs h r))
      | GraphQLList u \<Rightarrow> False
      | GraphQLNonNull u \<Rightarrow> False)
   \<and> (\<not> instanceOf h (getNamedType t) ObjectType \<longrightarrow> implementsInterface h t n = False)"
  by (induction t) (auto simp: implementsInterface_def list_ex_iff)

theorem implementsInterface_unwrapped_object_witness:
  "\<not> instanceOf exampleHeap (getNamedType (GraphQLNonNull (Named 2))) ObjectType
   \<and> implementsInterface exampleHeap (GraphQLNonNull (Named 2)) ''Node'' = False
   \<and> implementsInterface exampleHeap (Named 3) ''Node'' = True"
  using implementsInterface_unwrapped_object [of exampleHeap "GraphQLNonNull (Named 2)" "''Node''"]
    implementsInterface_unwrapped_object [of exampleHeap "Named 3" "''Node''"]
  by (simp add: example_defs)

section \<open>mayImplement\<close>

text \<open>
  C2: for every schema and every type reference, of any nesting of List and NonNull,
  \<open>mayImplement\<close> called with the name of the reference's own raw type returns true:
  the first operand of its disjunction already holds.
\<close>

theorem mayImplement_own_raw_name:
  "\<exists>raw. getRawType t = Inr raw \<and> mayImplement h s t (toString h raw) = Inr True"
  by (simp add: getRawType_eq mayImplement_def andThen_def)

section \<open>canHaveSelections\<close>

text \<open>
  C3, as the specification states it, fails: \<open>canHaveSelections\<close> tests the value it
  is given, not its raw type. It is true on the object type \<open>User\<close> and false on
  \<open>[User]\<close>, whose raw type is \<open>User\<close>.
\<close>

theorem canHaveSelections_wrapped_counterexample:
  "getRawType (GraphQLList (Named 3)) = Inr (Named 3)
   \<and> instanceOf exampleHeap (Named 3) ObjectType
   \<and> canHaveSelections exampleHeap (Named 3) = True
   \<and> canHaveSelections exampleHeap (GraphQLList (Named 3)) = False"
  by (simp add: getRawType_eq canHaveSelections_def example_defs)

text \<open>
  C3, amended: \<open>canHaveSelections(t)\<close> is true if and only if \<open>t\<close> itself, with no
  wrapper removed, is an object type or an interface type; it is false on every List
  and every NonNull reference.
\<close>

theorem canHaveSelections_unwrapped:
  "canHaveSelections h t =
     (case t of
        Named r \<Rightarrow> tkind (typeObjs h r) = ObjectType \<or> tkind (typeObjs h r) = InterfaceType
      | GraphQLList u \<Rightarrow> False
      | GraphQLNonNull u \<Rightarrow> False)"
  by (cases t) (simp_all add: canHaveSelections_def)

section \<open>getSingularType\<close>

text \<open>
  C4, as the specification states it, fails: not every List layer is removed. The loop
  stops at the first layer that is not a List, so the non-null list \<open>[ID]!\<close> is
  returned as it is, List layer included.
\<close>

theorem getSingularType_nonnull_list_counterexample:
  "getSingularType (GraphQLNonNull (GraphQLList (Named 0))) = GraphQLNonNull (GraphQLList (Named 0))
   \<and> hasListLayer (getSingularType (GraphQLNonNull (GraphQLList (Named 0))))"
  by simp

lemma getSingularType_funpow: "getSingularType ((GraphQLList ^^ k) t) = getSingularType t"
  by (induction k) simp_all

lemma getSingularType_decompose: "\<exists>k. t = (GraphQLList ^^ k) (getSingularType t)"
proof (induction t)
  case (Named r)
  have "Named r = (GraphQLList ^^ 0) (getSingularType (Named r))" by simp
  then show ?case by blast
next
  case (GraphQLList t)
  then obtain k where "t = (GraphQLList ^^ k) (getSingularType t)" by blast
  then have "GraphQLList t = (GraphQLList ^^ Suc k) (getSingularType (GraphQLList t))" by simp
  then show ?case by blast
next
  case (GraphQLNonNull t)
  have "GraphQLNonNull t = (GraphQLList ^^ 0) (getSingularType (GraphQLNonNull t))" by simp
  then show ?case by blast
qed

lemma getSingularType_not_list: "getSingularType t \<noteq> GraphQLList u"
  by (induction t) simp_all

text \<open>
  C4, amended: \<open>singularType(ref)\<close> removes the outermost List layers only, however
  many there are: the reference is the result under some number of List layers, the
  result is not a List, and what lies under the last removed List layer is returned
  unchanged, a NonNull layer with everything inside it or a named type. In particular
  \<open>singularType(List(NonNull(T)))\<close> is \<open>NonNull(T)\<close>, not \<open>T\<close>.
\<close>

theorem getSingularType_strips_outer_lists:
  "(\<exists>k. t = (GraphQLList ^^ k) (getSingularType t))
   \<and> (\<forall>u. getSingularType t \<noteq> GraphQLList u)
   \<and> getSingularType ((GraphQLList ^^ n) (GraphQLNonNull u)) = GraphQLNonNull u
   \<and> getSingularType ((GraphQLList ^^ n) (Named r)) = Named r
   \<and> getSingularType (GraphQLList (GraphQLNonNull (Named r))) = GraphQLNonNull (Named r)"
  using getSingularType_decompose [of t]
  by (simp add: getSingularType_funpow getSingularType_not_list)

section \<open>hasID\<close>

lemma Some_Named_eq_map_option: "(Some (Named a) = map_option Named m) = (m = Some a)"
  by (cases m) auto

text \<open>
  What \<open>hasID\<close> computes: the invariant fails exactly when the raw type is neither an
  object nor an interface type; otherwise the result is \<open>undefined\<close> when the raw type
  has no field \<open>id\<close>, and else the boolean that says whether the raw type of that
  field is the very type object the schema files under \<open>ID\<close>.
\<close>

lemma hasID_result:
  "hasID h s t =
     (if tkind (typeObjs h (namedRef t)) = ObjectType
         \<or> tkind (typeObjs h (namedRef t)) = InterfaceType
      then
        (case tfields (typeObjs h (namedRef t)) ''id'' of
           None \<Rightarrow> Inr JSUndefined
         | Some idField \<Rightarrow>
             Inr (JSBool (map_of (typeMap (schemaObjs h s)) ''ID''
                            = Some (namedRef (ftype idField)))))
      else Inl (Invariant
        (''RelaySchemaUtils.hasID(): Expected a concrete type or interface, got type `''
           @ toString h t @ ''`.'')))"
  by (auto simp: hasID_def getRawType_eq andThen_def getNamedType_namedRef ID_def ID_TYPE_def
        getType_def Some_Named_eq_map_option split: option.splits)

text \<open>
  On the example: \<open>[User]\<close> has an identity field; the union \<open>Entity\<close> violates
  the invariant; \<open>Draft\<close> has a field \<open>id\<close> of a type named \<open>ID\<close> that is not
  the schema's instance, and the result is false; in the schema without a type \<open>ID\<close>
  the result for \<open>User\<close> is false, with no error.
\<close>

lemma hasID_examples:
  "hasID exampleHeap 0 (GraphQLList (Named 3)) = Inr (JSBool True)"
  "hasID exampleHeap 0 (Named 4) = Inl (Invariant
     ''RelaySchemaUtils.hasID(): Expected a concrete type or interface, got type `Entity`.'')"
  "toString exampleHeap (Named 6) = toString exampleHeap (Named 0)"
  "hasID exampleHeap 0 (Named 7) = Inr (JSBool False)"
  "hasID exampleHeap 2 (Named 3) = Inr (JSBool False)"
  by (simp_all add: hasID_result example_defs)

text \<open>
  C5: the specification has \<open>hasID\<close> return false, with no error, when the raw type
  is an object or interface type without a field \<open>id\<close>, and the function is declared
  to return a boolean. On the object type \<open>Query\<close>, which has no such field, the code
  returns \<open>undefined\<close>, the left operand of its \<open>&&\<close>, and not false.
\<close>

theorem hasID_absent_field_undefined:
  "instanceOf exampleHeap (Named 5) ObjectType
   \<and> tfields (typeObjs exampleHeap 5) ID = None
   \<and> hasID exampleHeap 0 (Named 5) = Inr JSUndefined
   \<and> hasID exampleHeap 0 (Named 5) \<noteq> Inr (JSBool False)"
  by (simp add: hasID_result ID_def example_defs)

section \<open>Kinds of syntax nodes\<close>

text \<open>
  C8: \<open>isSchemaDefinitionAST\<close> is true exactly on the eight kinds of schema
  definitions, \<open>isOperationDefinitionAST\<close> exactly on \<open>FragmentDefinition\<close> and
  \<open>OperationDefinition\<close>, the two are never both true of a node, and both are false on
  a node of kind \<open>FieldDefinition\<close>.
\<close>

theorem ast_definition_kinds:
  "isSchemaDefinitionAST ast =
     (kind ast \<in> {''DirectiveDefinition'', ''EnumTypeDefinition'', ''InputObjectTypeDefinition'',
        ''InterfaceTypeDefinition'', ''ObjectTypeDefinition'', ''ScalarTypeDefinition'',
        ''TypeExtensionDefinition'', ''UnionTypeDefinition''})
   \<and> isOperationDefinitionAST ast = (kind ast \<in> {''FragmentDefinition'', ''OperationDefinition''})
   \<and> \<not> (isSchemaDefinitionAST ast \<and> isOperationDefinitionAST ast)
   \<and> \<not> isSchemaDefinitionAST \<lparr>kind = ''FieldDefinition''\<rparr>
   \<and> \<not> isOperationDefinitionAST \<lparr>kind = ''FieldDefinition''\<rparr>"
  by (auto simp: isSchemaDefinitionAST_def isOperationDefinitionAST_def)

section \<open>getTypeFromAST\<close>

lemma typeFromAST_rewrap:
  "typeFromASTNullable h s n = map_option (rewrapNullable n) (getType h s (leafNameNullable n))"
  "typeFromAST h s t = map_option (rewrap t) (getType h s (leafName t))"
  by (induction n and t) (simp_all add: option.map_comp comp_def option.map_ident)

text \<open>
  C9: \<open>getTypeFromAST\<close> fails if and only if the schema has no type under the name
  at the leaf of the node; the error is then the invariant "Unknown type", whose message
  contains the printed node; otherwise the result is the type found, under the List and
  NonNull layers of the node.
\<close>

theorem getTypeFromAST_unknown_or_rewrapped:
  "getTypeFromAST h s ast =
     (case getType h s (leafName ast) of
        None \<Rightarrow> Inl (Invariant (unknownTypeMessage (print ast)))
      | Some leaf \<Rightarrow> Inr (rewrap ast leaf))
   \<and> ((\<exists>e. getTypeFromAST h s ast = Inl e) = (getType h s (leafName ast) = None))
   \<and> (\<exists>before after. unknownTypeMessage (print ast) = before @ print ast @ after)"
proof -
  have "unknownTypeMessage (print ast) = ''RelaySchemaUtils: Unknown type `'' @ print ast @ ''`.''"
    by (simp add: unknownTypeMessage_def)
  then have "\<exists>before after. unknownTypeMessage (print ast) = before @ print ast @ after"
    by blast
  then show ?thesis
    by (auto simp: getTypeFromAST_def typeFromAST_rewrap isType_def split: option.splits)
qed

lemma getTypeFromAST_examples:
  "getTypeFromAST exampleHeap 0 (NonNullTypeNode (ListTypeNode (NonNullTypeNode (NamedTypeNode ''User''))))
     = Inr (GraphQLNonNull (GraphQLList (GraphQLNonNull (Named 3))))"
  "getTypeFromAST exampleHeap 0 (NonNullTypeNode (ListTypeNode (Nullable (NamedTypeNode ''Page''))))
     = Inl (Invariant ''RelaySchemaUtils: Unknown type `[Page]!`.'')"
  by (simp_all add: getTypeFromAST_def getType_def isType_def unknownTypeMessage_def example_defs)

section \<open>schemaWithDirectives\<close>

lemma validateUniqueNames_distinct:
  "distinct (map dname ds) \<Longrightarrow> set (map dname ds) \<inter> seen = {} \<Longrightarrow>
   validateUniqueNames seen ds = Inr (seen \<union> set (map dname ds))"
  by (induction ds arbitrary: seen) auto

lemma validateUniqueNames_first_repeated:
  "\<not> (distinct (map dname ds) \<and> set (map dname ds) \<inter> seen = {}) \<Longrightarrow>
   \<exists>xs x ys. ds = xs @ x # ys \<and> distinct (map dname xs) \<and> set (map dname xs) \<inter> seen = {}
     \<and> dname x \<in> seen \<union> set (map dname xs)
     \<and> validateUniqueNames seen ds = Inl (Invariant (duplicateDirectiveMessage (dname x)))"
proof (induction ds arbitrary: seen)
  case Nil
  then show ?case by simp
next
  case (Cons d ds)
  show ?case
  proof (cases "dname d \<in> seen")
    case True
    then have "d # ds = [] @ d # ds \<and> distinct (map dname []) \<and> set (map dname []) \<inter> seen = {}
      \<and> dname d \<in> seen \<union> set (map dname [])
      \<and> validateUniqueNames seen (d # ds) = Inl (Invariant (duplicateDirectiveMessage (dname d)))"
      by simp
    then show ?thesis by blast
  next
    case False
    with Cons.prems
    have "\<not> (distinct (map dname ds) \<and> set (map dname ds) \<inter> insert (dname d) seen = {})"
      by auto
    from Cons.IH [OF this] obtain xs x ys where
      h: "ds = xs @ x # ys" "distinct (map dname xs)"
         "set (map dname xs) \<inter> insert (dname d) seen = {}"
         "dname x \<in> insert (dname d) seen \<union> set (map dname xs)"
         "validateUniqueNames (insert (dname d) seen) ds
            = Inl (Invariant (duplicateDirectiveMessage (dname x)))"
      by blast
    from h False have "d # ds = (d # xs) @ x # ys \<and> distinct (map dname (d # xs))
      \<and> set (map dname (d # xs)) \<inter> seen = {}
      \<and> dname x \<in> seen \<union> set (map dname (d # xs))
      \<and> validateUniqueNames seen (d # ds) = Inl (Invariant (duplicateDirectiveMessage (dname x)))"
      by auto
    then show ?thesis by blast
  qed
qed

lemma mapArray_assertNamedType:
  "mapArray (assertNamedType h) (objectValues m) = Inr (objectValues m)"
  by (induction m) (auto simp: objectValues_def assertNamedType_def assertType_def andThen_def)

lemma typeMap_of_objectValues:
  "map (\<lambda>t. (toString h (getNamedType t), namedRef t)) (objectValues m)
     = map (\<lambda>(k, r). (tname (typeObjs h r), r)) m"
  by (induction m) (auto simp: objectValues_def)

lemma schemaWithDirectives_fails:
  assumes "\<not> distinct (map dname (dirArrays h (getDirectives h s) @ dirArrays h ds))"
  shows "\<exists>xs x ys. dirArrays h (getDirectives h s) @ dirArrays h ds = xs @ x # ys
           \<and> distinct (map dname xs) \<and> dname x \<in> set (map dname xs)
           \<and> schemaWithDirectives h s ds = Inl (Invariant (duplicateDirectiveMessage (dname x)))"
proof -
  let ?c = "dirArrays h (getDirectives h s) @ dirArrays h ds"
  from assms have "\<not> (distinct (map dname ?c) \<and> set (map dname ?c) \<inter> {} = {})" by simp
  from validateUniqueNames_first_repeated [OF this] obtain xs x ys where
    h: "?c = xs @ x # ys" "distinct (map dname xs)" "dname x \<in> {} \<union> set (map dname xs)"
       "validateUniqueNames {} ?c = Inl (Invariant (duplicateDirectiveMessage (dname x)))"
    by blast
  from h(4) have "schemaWithDirectives h s ds = Inl (Invariant (duplicateDirectiveMessage (dname x)))"
    by (simp add: schemaWithDirectives_def newArray_def andThen_def Let_def)
  with h(1-3) show ?thesis by auto
qed

lemma schemaWithDirectives_succeeds:
  assumes "distinct (map dname (dirArrays h (getDirectives h s) @ dirArrays h ds))"
  shows "schemaWithDirectives h s ds =
     Inr (Suc (nextRef h),
          h\<lparr>dirArrays := (dirArrays h)
               (nextRef h := dirArrays h (getDirectives h s) @ dirArrays h ds),
            schemaObjs := (schemaObjs h)(Suc (nextRef h) :=
               \<lparr>queryType = queryType (schemaObjs h s),
                mutationType = mutationType (schemaObjs h s),
                subscriptionType = subscriptionType (schemaObjs h s),
                typeMap = map (\<lambda>(k, r). (tname (typeObjs h r), r)) (typeMap (schemaObjs h s)),
                directives = nextRef h\<rparr>),
            nextRef := Suc (Suc (nextRef h))\<rparr>)"
proof -
  let ?c = "dirArrays h (getDirectives h s) @ dirArrays h ds"
  have v: "validateUniqueNames {} ?c = Inr ({} \<union> set (map dname ?c))"
    using assms by (intro validateUniqueNames_distinct) simp_all
  show ?thesis
    using v
    by (simp add: schemaWithDirectives_def newArray_def andThen_def mapArray_assertNamedType
          newGraphQLSchema_def getTypeMap_def typeMap_of_objectValues Let_def)
qed

text \<open>
  C6: let the combined sequence be the schema's directives followed by the new ones.
  When two of its entries have the same name, \<open>schemaWithDirectives\<close> fails with
  the invariant that names a duplicate directive, and the name is that of the first
  entry whose name an earlier entry has. When all names differ it succeeds, and the
  directives of the schema it returns are the combined sequence, as many as the
  schema's and the new ones together. It fails in no other case.
\<close>

theorem schemaWithDirectives_duplicate_names:
  "(\<not> distinct (map dname (dirArrays h (getDirectives h s) @ dirArrays h ds)) \<longrightarrow>
      (\<exists>xs x ys. dirArrays h (getDirectives h s) @ dirArrays h ds = xs @ x # ys
         \<and> distinct (map dname xs) \<and> dname x \<in> set (map dname xs)
         \<and> schemaWithDirectives h s ds = Inl (Invariant (duplicateDirectiveMessage (dname x)))))
   \<and> (distinct (map dname (dirArrays h (getDirectives h s) @ dirArrays h ds)) \<longrightarrow>
      (\<exists>s' h'. schemaWithDirectives h s ds = Inr (s', h')
         \<and> dirArrays h' (getDirectives h' s') = dirArrays h (getDirectives h s) @ dirArrays h ds
         \<and> length (dirArrays h' (getDirectives h' s'))
             = length (dirArrays h (getDirectives h s)) + length (dirArrays h ds)))
   \<and> ((\<exists>e. schemaWithDirectives h s ds = Inl e)
        = (\<not> distinct (map dname (dirArrays h (getDirectives h s) @ dirArrays h ds))))"
proof (cases "distinct (map dname (dirArrays h (getDirectives h s) @ dirArrays h ds))")
  case True
  from schemaWithDirectives_succeeds [OF True] True show ?thesis
    by (simp add: getDirectives_def)
next
  case False
  from schemaWithDirectives_fails [OF False] False show ?thesis
    by auto
qed

theorem schemaWithDirectives_duplicate_names_witness:
  "\<not> distinct (map dname (dirArrays exampleHeap (getDirectives exampleHeap 0) @ dirArrays exampleHeap 3))
   \<and> (\<exists>xs x ys. dirArrays exampleHeap (getDirectives exampleHeap 0) @ dirArrays exampleHeap 3 = xs @ x # ys
         \<and> distinct (map dname xs) \<and> dname x \<in> set (map dname xs)
         \<and> schemaWithDirectives exampleHeap 0 3 = Inl (Invariant (duplicateDirectiveMessage (dname x))))
   \<and> schemaWithDirectives exampleHeap 0 3 = Inl (Invariant
        ''RelaySchemaUtils: Expected unique names for directives, found a duplicate directive `skip`.'')
   \<and> distinct (map dname (dirArrays exampleHeap (getDirectives exampleHeap 0) @ dirArrays exampleHeap 2))
   \<and> (\<exists>s' h'. schemaWithDirectives exampleHeap 0 2 = Inr (s', h')
         \<and> map dname (dirArrays h' (getDirectives h' s')) = [''include'', ''skip'', ''relay'']
         \<and> length (dirArrays h' (getDirectives h' s')) = 2 + 1)"
proof -
  have dup: "\<not> distinct (map dname (dirArrays exampleHeap (getDirectives exampleHeap 0) @ dirArrays exampleHeap 3))"
    by (simp add: getDirectives_def example_defs)
  have uniq: "distinct (map dname (dirArrays exampleHeap (getDirectives exampleHeap 0) @ dirArrays exampleHeap 2))"
    by (simp add: getDirectives_def example_defs)
  have msg: "schemaWithDirectives exampleHeap 0 3 = Inl (Invariant
        ''RelaySchemaUtils: Expected unique names for directives, found a duplicate directive `skip`.'')"
    by (simp add: schemaWithDirectives_def newArray_def andThen_def Let_def getDirectives_def
          duplicateDirectiveMessage_def example_defs)
  from schemaWithDirectives_duplicate_names [of exampleHeap 0 3] dup
  have a: "\<exists>xs x ys. dirArrays exampleHeap (getDirectives exampleHeap 0) @ dirArrays exampleHeap 3 = xs @ x # ys
         \<and> distinct (map dname xs) \<and> dname x \<in> set (map dname xs)
         \<and> schemaWithDirectives exampleHeap 0 3 = Inl (Invariant (duplicateDirectiveMessage (dname x)))"
    by blast
  from schemaWithDirectives_duplicate_names [of exampleHeap 0 2] uniq
  obtain s' h' where b: "schemaWithDirectives exampleHeap 0 2 = Inr (s', h')"
    "dirArrays h' (getDirectives h' s') = dirArrays exampleHeap (getDirectives exampleHeap 0) @ dirArrays exampleHeap 2"
    by blast
  from b(2) have c: "map dname (dirArrays h' (getDirectives h' s')) = [''include'', ''skip'', ''relay'']"
    "length (dirArrays h' (getDirectives h' s')) = 2 + 1"
    by (simp_all add: getDirectives_def example_defs)
  from b(1) c
  have e: "\<exists>s' h'. schemaWithDirectives exampleHeap 0 2 = Inr (s', h')
         \<and> map dname (dirArrays h' (getDirectives h' s')) = [''include'', ''skip'', ''relay'']
         \<and> length (dirArrays h' (getDirectives h' s')) = 2 + 1"
    by (intro exI [of _ s'] exI [of _ h'] conjI)
  show ?thesis
    by (intro conjI) (fact dup, fact a, fact msg, fact uniq, fact e)
qed

text \<open>
  C7: when \<open>schemaWithDirectives\<close> succeeds, the schema it returns is a new object
  with the root types of the given one and a type map of the same types, each under
  its name; no type object changes, and every schema object and every array allocated
  before the call is as it was, so the given schema has the directives, the type map and
  the root types it had.
\<close>

theorem schemaWithDirectives_frame:
  assumes "schemaWithDirectives h s ds = Inr (s', h')"
  shows "queryType (schemaObjs h' s') = queryType (schemaObjs h s)
   \<and> mutationType (schemaObjs h' s') = mutationType (schemaObjs h s)
   \<and> subscriptionType (schemaObjs h' s') = subscriptionType (schemaObjs h s)
   \<and> map snd (getTypeMap h' s') = map snd (getTypeMap h s)
   \<and> map fst (getTypeMap h' s') = map (\<lambda>r. tname (typeObjs h r)) (map snd (getTypeMap h s))
   \<and> typeObjs h' = typeObjs h
   \<and> nextRef h \<le> s' \<and> nextRef h \<le> getDirectives h' s'
   \<and> (\<forall>r. r < nextRef h \<longrightarrow> schemaObjs h' r = schemaObjs h r \<and> dirArrays h' r = dirArrays h r)
   \<and> (s < nextRef h \<and> getDirectives h s < nextRef h \<longrightarrow>
        dirArrays h' (getDirectives h' s) = dirArrays h (getDirectives h s)
        \<and> getTypeMap h' s = getTypeMap h s
        \<and> queryType (schemaObjs h' s) = queryType (schemaObjs h s)
        \<and> mutationType (schemaObjs h' s) = mutationType (schemaObjs h s)
        \<and> subscriptionType (schemaObjs h' s) = subscriptionType (schemaObjs h s))"
proof -
  have d: "distinct (map dname (dirArrays h (getDirectives h s) @ dirArrays h ds))"
  proof (rule ccontr)
    assume "\<not> ?thesis"
    from schemaWithDirectives_fails [OF this] assms show False by auto
  qed
  from schemaWithDirectives_succeeds [OF d] assms
  have s': "s' = Suc (nextRef h)" and
    h': "h' = h\<lparr>dirArrays := (dirArrays h)
               (nextRef h := dirArrays h (getDirectives h s) @ dirArrays h ds),
            schemaObjs := (schemaObjs h)(Suc (nextRef h) :=
               \<lparr>queryType = queryType (schemaObjs h s),
                mutationType = mutationType (schemaObjs h s),
                subscriptionType = subscriptionType (schemaObjs h s),
                typeMap = map (\<lambda>(k, r). (tname (typeObjs h r), r)) (typeMap (schemaObjs h s)),
                directives = nextRef h\<rparr>),
            nextRef := Suc (Suc (nextRef h))\<rparr>"
    by simp_all
  show ?thesis
    unfolding s' h' by (simp add: getTypeMap_def getDirectives_def split_def comp_def)
qed

theorem schemaWithDirectives_frame_witness:
  "\<exists>s' h'. schemaWithDirectives exampleHeap 0 2 = Inr (s', h')
     \<and> queryType (schemaObjs h' s') = 5
     \<and> map snd (getTypeMap h' s') = [5, 2, 0, 3, 1, 4]
     \<and> schemaObjs h' 0 = exampleSchema
     \<and> map dname (dirArrays h' (getDirectives h' 0)) = [''include'', ''skip'']
     \<and> getTypeMap h' 0 = getTypeMap exampleHeap 0"
proof -
  have uniq: "distinct (map dname (dirArrays exampleHeap (getDirectives exampleHeap 0) @ dirArrays exampleHeap 2))"
    by (simp add: getDirectives_def example_defs)
  from schemaWithDirectives_succeeds [OF uniq]
  obtain s' h' where ok: "schemaWithDirectives exampleHeap 0 2 = Inr (s', h')" by blast
  have alloc: "(0::nat) < nextRef exampleHeap \<and> getDirectives exampleHeap 0 < nextRef exampleHeap"
    by (simp add: getDirectives_def example_defs)
  from schemaWithDirectives_frame [OF ok] alloc
  have "queryType (schemaObjs h' s') = 5
     \<and> map snd (getTypeMap h' s') = [5, 2, 0, 3, 1, 4]
     \<and> schemaObjs h' 0 = exampleSchema
     \<and> map dname (dirArrays h' (getDirectives h' 0)) = [''include'', ''skip'']
     \<and> getTypeMap h' 0 = getTypeMap exampleHeap 0"
    by (simp add: getTypeMap_def getDirectives_def example_defs)
  with ok show ?thesis
    by (intro exI [of _ s'] exI [of _ h'] conjI) simp_all
qed

text \<open>
  C10: the scan covers the schema's own directives. When two of them have the same
  name, \<open>schemaWithDirectives\<close> with an empty array of new directives fails with the
  invariant that names a duplicate directive, the name being that of the first of the
  schema's directives whose name an earlier one has.
\<close>

theorem schemaWithDirectives_base_duplicates:
  assumes "\<not> distinct (map dname (dirArrays h (getDirectives h s)))"
    and "dirArrays h ds = []"
  shows "\<exists>xs x ys. dirArrays h (getDirectives h s) = xs @ x # ys
           \<and> distinct (map dname xs) \<and> dname x \<in> set (map dname xs)
           \<and> schemaWithDirectives h s ds = Inl (Invariant (duplicateDirectiveMessage (dname x)))"
proof -
  from assms have "\<not> distinct (map dname (dirArrays h (getDirectives h s) @ dirArrays h ds))"
    by simp
  from schemaWithDirectives_fails [OF this] assms(2) show ?thesis by simp
qed

theorem schemaWithDirectives_base_duplicates_witness:
  "\<not> distinct (map dname (dirArrays exampleHeap (getDirectives exampleHeap 1)))
   \<and> dirArrays exampleHeap 5 = []
   \<and> (\<exists>xs x ys. dirArrays exampleHeap (getDirectives exampleHeap 1) = xs @ x # ys
           \<and> distinct (map dname xs) \<and> dname x \<in> set (map dname xs)
           \<and> schemaWithDirectives exampleHeap 1 5 = Inl (Invariant (duplicateDirectiveMessage (dname x))))
   \<and> schemaWithDirectives exampleHeap 1 5 = Inl (Invariant
        ''RelaySchemaUtils: Expected unique names for directives, found a duplicate directive `include`.'')"
proof -
  have dup: "\<not> distinct (map dname (dirArrays exampleHeap (getDirectives exampleHeap 1)))"
    by (simp add: getDirectives_def example_defs)
  have empty: "dirArrays exampleHeap 5 = []"
    by (simp add: example_defs)
  have msg: "schemaWithDirectives exampleHeap 1 5 = Inl (Invariant
        ''RelaySchemaUtils: Expected unique names for directives, found a duplicate directive `include`.'')"
    by (simp add: schemaWithDirectives_def newArray_def andThen_def Let_def getDirectives_def
          duplicateDirectiveMessage_def example_defs)
  note a = schemaWithDirectives_base_duplicates [OF dup empty]
  show ?thesis
    by (intro conjI) (fact dup, fact empty, fact a, fact msg)
qed

end
